theory Spec2Isabelle
  imports Main
begin

text \<open>
  The analysis and conversation core of the Syntaxtual editor extension: the model client
  (\<^verbatim>\<open>services/openaiService.ts\<close>), the analysis engine (\<^verbatim>\<open>services/codeAnalyzer.ts\<close>),
  the conversation manager and the configuration manager, as functions of HOL.

  An asynchronous function is run to its end, one call at a time. A function that can
  throw returns a sum, \<open>Inl\<close> the value thrown. A method that changes the state of its
  object takes the state and returns the new one with its result. What the editor, the
  file system, the clock and the remote API give is read from a record, \<open>Host\<close>; the
  settings are read from a record, \<open>Config\<close>. A string is a list of characters, and a
  file path stands for its \<^verbatim>\<open>Uri\<close>.
\<close>

section \<open>Data model\<close>

text \<open>
  A field keeps its name in the source, with a prefix where the name is taken in
  Isabelle or by a field of another interface.
\<close>

subsection \<open>models/anomaly.ts\<close>

text \<open>The enum \<^verbatim>\<open>AnomalyType\<close> with its ten members.\<close>

datatype AnomalyType =
    POTENTIAL_BUG | SECURITY_ISSUE | PERFORMANCE | CODE_SMELL | BEST_PRACTICE
  | LOGIC_ERROR | TYPE_MISMATCH | UNUSED_CODE | COMPLEXITY | NAMING_CONVENTION

text \<open>
  \<^verbatim>\<open>type Severity = 'error' | 'warning' | 'info'\<close>: a closed type of three string
  literals. At run time a severity is the string itself, which \<open>severityKey\<close> gives.
\<close>

datatype Severity = Sev_error | Sev_warning | Sev_info

fun severityKey :: "Severity \<Rightarrow> string" where
  "severityKey Sev_error = ''error''"
| "severityKey Sev_warning = ''warning''"
| "severityKey Sev_info = ''info''"

text \<open>
  The editor's \<^verbatim>\<open>Position\<close> and \<^verbatim>\<open>Range\<close>. They are made by the constructors of the
  editor, \<open>Position_new\<close> and \<open>Range_new\<close> below.
\<close>

record Position =
  line :: int
  character :: int

record Range =
  range_start :: Position
  range_end :: Position

record AnomalyLocation =
  loc_file :: string
  loc_range :: Range
  codeSnippet :: "string option"

text \<open>
  \<^verbatim>\<open>interface Anomaly\<close>. The optional fields \<^verbatim>\<open>relatedLocations\<close>,
  \<^verbatim>\<open>conversationId\<close> and \<^verbatim>\<open>fix\<close> are never assigned by the services modelled
  here and are left out.
\<close>

record Anomaly =
  anomaly_id :: string
  anomaly_type :: AnomalyType
  severity :: Severity
  location :: AnomalyLocation
  title :: string
  description :: string
  suggestion :: "string option"

record AnalysisResult =
  anomalies :: "Anomaly list"
  analyzedFiles :: "string list"
  result_timestamp :: nat

subsection \<open>models/config.ts\<close>

record ReviewRule =
  rule_id :: string
  rule_name :: string
  rule_description :: string
  enabled :: bool
  rule_severity :: Severity
  pattern :: "string option"
  prompt :: "string option"
  languages :: "string list option"

record WorkspaceConfig =
  rules :: "ReviewRule list option"
  ws_excludePatterns :: "string list option"
  teamId :: "string option"

subsection \<open>models/conversation.ts\<close>

datatype MessageRole = User | Assistant | System

record Message =
  msg_id :: string
  role :: MessageRole
  content :: string
  timestamp :: nat

record Conversation =
  conv_id :: string
  anomalyId :: string
  messages :: "Message list"
  createdAt :: nat
  updatedAt :: nat

record AnomalyContext =
  ctx_file :: string
  ctx_range_start :: int
  ctx_range_end :: int
  ctx_codeSnippet :: string
  ctx_title :: string
  ctx_description :: string
  ctx_type :: string
  ctx_language :: string

section \<open>The JavaScript run time, as far as the services use it\<close>

text \<open>A thrown value: the constructor that made it and its message.\<close>

datatype exn = Error string | SyntaxError string | TypeError string

text \<open>
  The constructors of the editor's positions and ranges. \<^verbatim>\<open>new vscode.Position\<close> throws
  an \<^verbatim>\<open>Error\<close> for a negative line or character. \<^verbatim>\<open>new vscode.Range\<close> with four
  numbers makes the start position, then the end position, and keeps them in this order
  when the start is before the end; otherwise it stores the two swapped.
\<close>

definition illegalArgument :: "string \<Rightarrow> exn" where
  "illegalArgument name = Error (''Illegal argument: '' @ name)"

definition Position_new :: "int \<Rightarrow> int \<Rightarrow> exn + Position" where
  "Position_new l c =
     (if l < 0 then Inl (illegalArgument ''line must be non-negative'')
      else if c < 0 then Inl (illegalArgument ''character must be non-negative'')
      else Inr \<lparr>line = l, character = c\<rparr>)"

definition isBefore :: "Position \<Rightarrow> Position \<Rightarrow> bool" where
  "isBefore p other =
     (if line p < line other then True
      else if line other < line p then False
      else character p < character other)"

definition Range_new :: "int \<Rightarrow> int \<Rightarrow> int \<Rightarrow> int \<Rightarrow> exn + Range" where
  "Range_new startLineNumber startColumn endLineNumber endColumn =
     (case Position_new startLineNumber startColumn of
        Inl e \<Rightarrow> Inl e
      | Inr start \<Rightarrow>
          (case Position_new endLineNumber endColumn of
             Inl e \<Rightarrow> Inl e
           | Inr end_position \<Rightarrow>
               if isBefore start end_position
               then Inr \<lparr>range_start = start, range_end = end_position\<rparr>
               else Inr \<lparr>range_start = end_position, range_end = start\<rparr>))"

text \<open>
  A \<^verbatim>\<open>Map\<close> keeps its entries in insertion order; \<^verbatim>\<open>set\<close> on a key that is
  present replaces the value in place, on a new key appends an entry.
\<close>

fun Map_set :: "('k \<times> 'v) list \<Rightarrow> 'k \<Rightarrow> 'v \<Rightarrow> ('k \<times> 'v) list" where
  "Map_set [] k v = [(k, v)]"
| "Map_set ((k', v') # m) k v = (if k' = k then (k, v) # m else (k', v') # Map_set m k v)"

definition Map_get :: "('k \<times> 'v) list \<Rightarrow> 'k \<Rightarrow> 'v option" where
  "Map_get m k = map_of m k"

definition Map_delete :: "('k \<times> 'v) list \<Rightarrow> 'k \<Rightarrow> ('k \<times> 'v) list" where
  "Map_delete m k = filter (\<lambda>e. fst e \<noteq> k) m"

definition Map_values :: "('k \<times> 'v) list \<Rightarrow> 'v list" where
  "Map_values m = map snd m"

text \<open>
  \<^verbatim>\<open>Array.prototype.slice(start, end)\<close>: a negative index counts from the end, and
  both are clamped to the array.
\<close>

definition slice_index :: "nat \<Rightarrow> int \<Rightarrow> nat" where
  "slice_index len i = (if i < 0 then nat (max (int len + i) 0) else min (nat i) len)"

definition slice :: "'a list \<Rightarrow> int \<Rightarrow> int \<Rightarrow> 'a list" where
  "slice xs start end_index =
     (let k = slice_index (length xs) start; final = slice_index (length xs) end_index
      in take (final - k) (drop k xs))"

text \<open>\<^verbatim>\<open>String.prototype.split(sep)\<close> for a separator of one character.\<close>

fun split :: "char \<Rightarrow> string \<Rightarrow> string list" where
  "split sep [] = [[]]"
| "split sep (c # cs) =
     (if c = sep then [] # split sep cs
      else (case split sep cs of
              [] \<Rightarrow> [[c]]
            | piece # pieces \<Rightarrow> (c # piece) # pieces))"

text \<open>\<^verbatim>\<open>Array.prototype.join(sep)\<close> on an array of strings.\<close>

fun join :: "string \<Rightarrow> string list \<Rightarrow> string" where
  "join sep [] = []"
| "join sep [x] = x"
| "join sep (x # y # ys) = x @ sep @ join sep (y # ys)"

text \<open>A non-negative integer in a template literal: its decimal digits.\<close>

function string_of_nat :: "nat \<Rightarrow> string" where
  "string_of_nat n =
     (if n < 10 then [char_of (48 + n)]
      else string_of_nat (n div 10) @ [char_of (48 + n mod 10)])"
  by pat_completeness auto
termination
  by (relation "measure (\<lambda>n. n)") auto

declare string_of_nat.simps [simp del]

text \<open>
  \<^verbatim>\<open>Date.now()\<close>: the host's clock is the sequence of its readings, and a state
  counts the readings taken so far. \<^verbatim>\<open>console.error(label, error)\<close> adds a line to
  the console, kept oldest first.
\<close>

type_synonym clock = "nat \<Rightarrow> nat"

record Runtime =
  ticks :: nat
  console :: "(string \<times> exn) list"

definition console_error :: "string \<Rightarrow> exn \<Rightarrow> 'a Runtime_scheme \<Rightarrow> 'a Runtime_scheme" where
  "console_error label e rt = rt\<lparr>console := console rt @ [(label, e)]\<rparr>"

section \<open>The host and the remote model\<close>

text \<open>A promise that has settled: rejected with a thrown value, or resolved.\<close>

datatype 'a promise = Rejected exn | Resolved 'a

record TextDocument =
  getText :: string
  languageId :: string

text \<open>
  \<^verbatim>\<open>interface AIAnomaly\<close> of services/openaiService.ts. The two line numbers are
  integers. The code has them as the numbers of JavaScript, where the subtraction and the
  comparisons of the parser are those of the integers for every integer up to \<open>2 ^ 53\<close>
  in size. A response where a line number is missing, or is no such integer, is not
  looked at.
\<close>

record AIAnomaly =
  ai_type :: string
  ai_severity :: string
  startLine :: int
  endLine :: int
  ai_title :: string
  ai_description :: string
  ai_suggestion :: "string option"

text \<open>
  What \<^verbatim>\<open>JSON.parse\<close> makes of a response body, as far as \<^verbatim>\<open>analyze\<close> reads the
  value: the text is no JSON and \<^verbatim>\<open>JSON.parse\<close> throws a \<^verbatim>\<open>SyntaxError\<close>; it is
  JSON with no array under \<^verbatim>\<open>anomalies\<close>, so that reading the field or calling
  \<^verbatim>\<open>map\<close> on it throws a \<^verbatim>\<open>TypeError\<close>; or it holds an array of anomalies.
\<close>

datatype json_reading =
    Invalid string
  | NoArray string
  | AnomaliesArray "AIAnomaly list"

text \<open>\<^verbatim>\<open>response.choices[0]?.message?.content\<close>, when it is a string.\<close>

record Content =
  body :: string
  reading :: json_reading

record AnalysisContext =
  fileName :: string
  language :: string
  ac_content :: string
  relatedFiles :: "(string \<times> string) list"

text \<open>
  The editor, the file system, the clock and the remote API. The two prompts of a
  completion request are functions of the model name, the rules and the context (of the
  messages and the anomaly context for a chat), which stand for the request here.
  \<open>importsOf\<close> is the scan of a file's text with the three import patterns and
  \<open>joinPath uri imp\<close> the path of \<^verbatim>\<open>vscode.Uri.joinPath(uri, '..', imp)\<close>.
  Opening a document, reading the workspace file and the two remote calls can fail;
  finding files and writing the global state do not.
\<close>

record Host =
  now :: clock
  workspaceFolder :: "string option"
  getWorkspaceFolder :: "string \<Rightarrow> string option"
  readWorkspaceConfig :: "string \<Rightarrow> exn + WorkspaceConfig"
  openTextDocument :: "string \<Rightarrow> exn + TextDocument"
  findFiles :: "string \<Rightarrow> string \<Rightarrow> string \<Rightarrow> int \<Rightarrow> string list"
  importsOf :: "string \<Rightarrow> string list"
  joinPath :: "string \<Rightarrow> string \<Rightarrow> string"
  createAnalysis :: "string \<Rightarrow> ReviewRule list \<Rightarrow> AnalysisContext \<Rightarrow> Content option promise"
  createChat :: "string \<Rightarrow> Message list \<Rightarrow> AnomalyContext \<Rightarrow> string option promise"

section \<open>config/defaultRules.ts\<close>

definition DEFAULT_RULES :: "ReviewRule list" where
  \<open>DEFAULT_RULES = [
    \<lparr>rule_id = ''security-hardcoded-secrets'',
     rule_name = ''Hardcoded Secrets Detection'',
     rule_description = ''Detects hardcoded API keys, passwords, and tokens'',
     enabled = True, rule_severity = Sev_error,
     pattern = Some (''(api[_-]?key|password|secret|token)'' @ [CHR 0x5C] @ ''s*[=:]''
                     @ [CHR 0x5C] @ ''s*["'][^"']+["']''),
     prompt = Some ''Check for hardcoded secrets, API keys, passwords, or tokens that should be in environment variables'',
     languages = None\<rparr>,
    \<lparr>rule_id = ''security-sql-injection'',
     rule_name = ''SQL Injection Risk'',
     rule_description = ''Detects potential SQL injection vulnerabilities'',
     enabled = True, rule_severity = Sev_error, pattern = None,
     prompt = Some ''Identify potential SQL injection vulnerabilities where user input is concatenated into SQL queries'',
     languages = None\<rparr>,
    \<lparr>rule_id = ''perf-n-plus-one'',
     rule_name = ''N+1 Query Detection'',
     rule_description = ''Detects potential N+1 query patterns in loops'',
     enabled = True, rule_severity = Sev_warning, pattern = None,
     prompt = Some ''Identify N+1 query patterns where database queries or API calls are made inside loops'',
     languages = None\<rparr>,
    \<lparr>rule_id = ''code-unused-variables'',
     rule_name = ''Unused Variables'',
     rule_description = ''Detects declared but unused variables'',
     enabled = True, rule_severity = Sev_info, pattern = None,
     prompt = Some ''Find variables that are declared but never used in the code'',
     languages = None\<rparr>,
    \<lparr>rule_id = ''logic-null-check'',
     rule_name = ''Missing Null Checks'',
     rule_description = ''Detects potential null/undefined access'',
     enabled = True, rule_severity = Sev_warning, pattern = None,
     prompt = Some ''Identify places where null or undefined values might cause runtime errors'',
     languages = None\<rparr>,
    \<lparr>rule_id = ''code-error-handling'',
     rule_name = ''Error Handling'',
     rule_description = ''Checks for proper error handling'',
     enabled = True, rule_severity = Sev_warning, pattern = None,
     prompt = Some ''Find try-catch blocks that swallow errors silently or have empty catch blocks'',
     languages = None\<rparr>,
    \<lparr>rule_id = ''perf-memory-leak'',
     rule_name = ''Potential Memory Leaks'',
     rule_description = ''Detects patterns that may cause memory leaks'',
     enabled = True, rule_severity = Sev_warning, pattern = None,
     prompt = Some ''Identify potential memory leaks such as unremoved event listeners, unclosed resources, or circular references'',
     languages = None\<rparr>,
    \<lparr>rule_id = ''style-naming-convention'',
     rule_name = ''Naming Convention'',
     rule_description = ''Checks for consistent naming conventions'',
     enabled = True, rule_severity = Sev_info, pattern = None,
     prompt = Some ''Check if naming conventions are consistent (camelCase for variables, PascalCase for classes, etc.)'',
     languages = None\<rparr>,
    \<lparr>rule_id = ''code-complexity'',
     rule_name = ''Code Complexity'',
     rule_description = ''Flags overly complex functions'',
     enabled = True, rule_severity = Sev_info, pattern = None,
     prompt = Some ''Identify functions with high cyclomatic complexity or deeply nested conditions that could be simplified'',
     languages = None\<rparr>,
    \<lparr>rule_id = ''code-duplication'',
     rule_name = ''Code Duplication'',
     rule_description = ''Detects duplicated code blocks'',
     enabled = True, rule_severity = Sev_info, pattern = None,
     prompt = Some ''Find duplicated code blocks that could be refactored into reusable functions'',
     languages = None\<rparr>]\<close>

section \<open>The configuration manager\<close>

text \<open>
  The settings under \<^verbatim>\<open>syntaxtual\<close> as the getters of \<^verbatim>\<open>ConfigManager\<close> return them,
  each default already applied.
\<close>

record Config =
  openaiApiKey :: string
  model :: string
  autoAnalyze :: bool
  customRules :: "ReviewRule list"
  excludePatterns :: "string list"
  severityThreshold :: Severity
  maxFilesToAnalyze :: int

definition isApiKeyConfigured :: "Config \<Rightarrow> bool" where
  "isApiKeyConfigured cfg = (length (openaiApiKey cfg) > 0)"

text \<open>
  \<^verbatim>\<open>loadWorkspaceConfig\<close>: \<^verbatim>\<open>null\<close> without a workspace folder, and when reading or
  parsing \<^verbatim>\<open>.syntaxtual.json\<close> throws.
\<close>

definition loadWorkspaceConfig :: "Host \<Rightarrow> WorkspaceConfig option" where
  "loadWorkspaceConfig host =
     (case workspaceFolder host of
        None \<Rightarrow> None
      | Some folder \<Rightarrow>
          (case readWorkspaceConfig host folder of
             Inr wc \<Rightarrow> Some wc
           | Inl e \<Rightarrow> None))"

text \<open>The two \<^verbatim>\<open>for\<close> loops of \<^verbatim>\<open>getMergedRules\<close>: \<^verbatim>\<open>ruleMap.set(rule.id, rule)\<close>.\<close>

fun setRules :: "(string \<times> ReviewRule) list \<Rightarrow> ReviewRule list \<Rightarrow> (string \<times> ReviewRule) list" where
  "setRules ruleMap [] = ruleMap"
| "setRules ruleMap (rule # rs) = setRules (Map_set ruleMap (rule_id rule) rule) rs"

definition mergeRules :: "ReviewRule list \<Rightarrow> ReviewRule list \<Rightarrow> ReviewRule list" where
  "mergeRules workspaceRules userRules =
     Map_values (setRules (setRules [] workspaceRules) userRules)"

definition getMergedRules :: "Config \<Rightarrow> Host \<Rightarrow> ReviewRule list" where
  "getMergedRules cfg host =
     (let userRules = customRules cfg;
          workspaceConfig = loadWorkspaceConfig host;
          workspaceRules =
            (case workspaceConfig of
               None \<Rightarrow> []
             | Some wc \<Rightarrow> (case rules wc of None \<Rightarrow> [] | Some rs \<Rightarrow> rs))
      in mergeRules workspaceRules userRules)"

section \<open>services/openaiService.ts\<close>

text \<open>
  The service holds the API client, or \<^verbatim>\<open>null\<close>; the client is kept as the key it
  was made with.
\<close>

record OpenAIService =
  client :: "string option"

definition initializeClient :: "Config \<Rightarrow> OpenAIService \<Rightarrow> OpenAIService" where
  "initializeClient cfg svc =
     (let apiKey = openaiApiKey cfg
      in if apiKey \<noteq> [] then svc\<lparr>client := Some apiKey\<rparr> else svc)"

definition isConfigured :: "Config \<Rightarrow> OpenAIService \<Rightarrow> bool" where
  "isConfigured cfg svc = (client svc \<noteq> None \<and> isApiKeyConfigured cfg)"

text \<open>
  \<^verbatim>\<open>typeMap[type] || AnomalyType.CODE_SMELL\<close>, for a type name of the model that is
  not a name every object inherits.
\<close>

definition mapAnomalyType :: "string \<Rightarrow> AnomalyType" where
  "mapAnomalyType ty =
     (if ty = ''potential_bug'' then POTENTIAL_BUG
      else if ty = ''security_issue'' then SECURITY_ISSUE
      else if ty = ''performance'' then PERFORMANCE
      else if ty = ''code_smell'' then CODE_SMELL
      else if ty = ''best_practice'' then BEST_PRACTICE
      else if ty = ''logic_error'' then LOGIC_ERROR
      else if ty = ''type_mismatch'' then TYPE_MISMATCH
      else if ty = ''unused_code'' then UNUSED_CODE
      else if ty = ''complexity'' then COMPLEXITY
      else if ty = ''naming_convention'' then NAMING_CONVENTION
      else CODE_SMELL)"

text \<open>\<^verbatim>\<open>severityMap[severity] || 'info'\<close>, likewise.\<close>

definition mapSeverity :: "string \<Rightarrow> Severity" where
  "mapSeverity sev =
     (if sev = ''error'' then Sev_error
      else if sev = ''warning'' then Sev_warning
      else if sev = ''info'' then Sev_info
      else Sev_info)"

text \<open>\<^verbatim>\<open>lines[endLine]?.length || 0\<close>\<close>

definition lineLength :: "string list \<Rightarrow> int \<Rightarrow> int" where
  "lineLength lines i =
     (if 0 \<le> i \<and> i < int (length lines) then int (length (lines ! nat i)) else 0)"

text \<open>
  The body of the \<^verbatim>\<open>map\<close> callback of \<^verbatim>\<open>parseAnomalies\<close>, for the anomaly \<open>a\<close> at
  \<open>index\<close>, with \<open>t\<close> the reading of the clock that its \<^verbatim>\<open>Date.now()\<close> takes. The
  callback throws what \<^verbatim>\<open>new vscode.Range\<close> throws.
\<close>

definition parseAnomaly ::
  "string \<Rightarrow> string list \<Rightarrow> nat \<Rightarrow> nat \<Rightarrow> AIAnomaly \<Rightarrow> exn + Anomaly" where
  "parseAnomaly file_name lines t index a =
     (let start_line = max 0 (startLine a - 1);
          end_line = min (int (length lines) - 1) (endLine a - 1);
          snippet = join ''\<newline>'' (slice lines start_line (end_line + 1))
      in case Range_new start_line 0 end_line (lineLength lines end_line) of
           Inl e \<Rightarrow> Inl e
         | Inr r \<Rightarrow>
             Inr \<lparr>anomaly_id = file_name @ ''-'' @ string_of_nat index @ ''-'' @ string_of_nat t,
                  anomaly_type = mapAnomalyType (ai_type a),
                  severity = mapSeverity (ai_severity a),
                  location = \<lparr>loc_file = file_name, loc_range = r, codeSnippet = Some snippet\<rparr>,
                  title = ai_title a,
                  description = ai_description a,
                  suggestion = ai_suggestion a\<rparr>)"

text \<open>
  The \<^verbatim>\<open>map\<close> of \<^verbatim>\<open>parseAnomalies\<close> over the anomalies from \<open>index\<close> on, with \<open>n\<close> the
  count of clock readings taken so far. Each call of the callback reads the clock, for
  the id, before it makes the range; a callback that throws ends the \<^verbatim>\<open>map\<close>.
\<close>

fun parseEach ::
  "clock \<Rightarrow> string \<Rightarrow> string list \<Rightarrow> nat \<Rightarrow> nat \<Rightarrow> AIAnomaly list \<Rightarrow> (exn + Anomaly list) \<times> nat" where
  "parseEach clk file_name lines n index [] = (Inr [], n)"
| "parseEach clk file_name lines n index (a # rest) =
     (case parseAnomaly file_name lines (clk n) index a of
        Inl e \<Rightarrow> (Inl e, n + 1)
      | Inr x \<Rightarrow>
          (case parseEach clk file_name lines (n + 1) (index + 1) rest of
             (Inl e, n') \<Rightarrow> (Inl e, n')
           | (Inr xs, n') \<Rightarrow> (Inr (x # xs), n')))"

text \<open>
  \<^verbatim>\<open>parseAnomalies\<close>, from the count \<open>n\<close> of clock readings taken so far; it
  returns the new count with the anomalies, or with what was thrown.
\<close>

definition parseAnomalies ::
  "clock \<Rightarrow> nat \<Rightarrow> AIAnomaly list \<Rightarrow> string \<Rightarrow> string \<Rightarrow> (exn + Anomaly list) \<times> nat" where
  "parseAnomalies clk n aiAnomalies file_name text =
     parseEach clk file_name (split CHR ''\<newline>'' text) n 0 aiAnomalies"

text \<open>
  \<^verbatim>\<open>analyze\<close>, on the run time \<open>rt\<close>. The \<^verbatim>\<open>catch\<close> block logs the error and throws
  it again, so every throw inside \<^verbatim>\<open>try\<close> is a failure of the call.
\<close>

definition analyze ::
  "Host \<Rightarrow> Config \<Rightarrow> OpenAIService \<Rightarrow> 'a Runtime_scheme \<Rightarrow> AnalysisContext \<Rightarrow> ReviewRule list option
     \<Rightarrow> (exn + Anomaly list) \<times> 'a Runtime_scheme" where
  "analyze host cfg svc rt context custom_rules =
     (if client svc = None then (Inl (Error ''OpenAI API key not configured''), rt)
      else
        let rule_list = (case custom_rules of Some rs \<Rightarrow> rs | None \<Rightarrow> filter enabled DEFAULT_RULES)
        in case createAnalysis host (model cfg) rule_list context of
             Rejected e \<Rightarrow> (Inl e, console_error ''OpenAI analysis error:'' e rt)
           | Resolved None \<Rightarrow> (Inr [], rt)
           | Resolved (Some c) \<Rightarrow>
               if body c = [] then (Inr [], rt)
               else
                 (case reading c of
                    Invalid m \<Rightarrow>
                      (Inl (SyntaxError m), console_error ''OpenAI analysis error:'' (SyntaxError m) rt)
                  | NoArray m \<Rightarrow>
                      (Inl (TypeError m), console_error ''OpenAI analysis error:'' (TypeError m) rt)
                  | AnomaliesArray ais \<Rightarrow>
                      (case parseAnomalies (now host) (ticks rt) ais (fileName context)
                              (ac_content context) of
                         (Inl e, n) \<Rightarrow>
                           (Inl e, console_error ''OpenAI analysis error:'' e (rt\<lparr>ticks := n\<rparr>))
                       | (Inr result, n) \<Rightarrow> (Inr result, rt\<lparr>ticks := n\<rparr>))))"

text \<open>
  \<^verbatim>\<open>chat\<close>: the content of the reply, or the apology when it has none; an error of the
  remote call is logged and thrown again.
\<close>

definition chat ::
  "Host \<Rightarrow> Config \<Rightarrow> OpenAIService \<Rightarrow> 'a Runtime_scheme \<Rightarrow> Message list \<Rightarrow> AnomalyContext
     \<Rightarrow> (exn + string) \<times> 'a Runtime_scheme" where
  "chat host cfg svc rt msgs anomaly_context =
     (if client svc = None then (Inl (Error ''OpenAI API key not configured''), rt)
      else
        case createChat host (model cfg) msgs anomaly_context of
          Rejected e \<Rightarrow> (Inl e, console_error ''OpenAI chat error:'' e rt)
        | Resolved None \<Rightarrow> (Inr ''Sorry, I could not generate a response.'', rt)
        | Resolved (Some c) \<Rightarrow>
            if c = [] then (Inr ''Sorry, I could not generate a response.'', rt) else (Inr c, rt))"

section \<open>services/codeAnalyzer.ts\<close>

record FileInfo =
  uri :: string
  fi_content :: string
  fi_language :: string

text \<open>
  The analyzer's own state, the cache, a \<^verbatim>\<open>Map\<close> from file path to result, together
  with the run time.
\<close>

record CodeAnalyzer = Runtime +
  analysisCache :: "(string \<times> AnalysisResult) list"

subsection \<open>filterBySeverity\<close>

text \<open>
  The object literal \<^verbatim>\<open>{ 'error': 0, 'warning': 1, 'info': 2 }\<close>, read by key; a key
  that is not one of the three reads as \<^verbatim>\<open>undefined\<close> (the names that every object
  inherits, such as \<^verbatim>\<open>constructor\<close>, are not looked at: no severity is one of them).
\<close>

definition severityOrder :: "string \<Rightarrow> nat option" where
  "severityOrder k =
     (if k = ''error'' then Some 0
      else if k = ''warning'' then Some 1
      else if k = ''info'' then Some 2
      else None)"

text \<open>\<^verbatim>\<open>severityOrder[k] ?? 2\<close>\<close>

definition levelOf :: "string \<Rightarrow> nat" where
  "levelOf k = (case severityOrder k of Some n \<Rightarrow> n | None \<Rightarrow> 2)"

definition filterBySeverity :: "Anomaly list \<Rightarrow> string \<Rightarrow> Anomaly list" where
  "filterBySeverity as threshold =
     (let thresholdLevel = levelOf threshold
      in filter (\<lambda>a. let anomalyLevel = levelOf (severityKey (severity a))
                     in anomalyLevel \<le> thresholdLevel) as)"

text \<open>The rank of the specification: error 0, warning 1, info 2.\<close>

fun rank :: "Severity \<Rightarrow> nat" where
  "rank Sev_error = 0"
| "rank Sev_warning = 1"
| "rank Sev_info = 2"

subsection \<open>getRelatedFiles\<close>

definition extensions :: "string list" where
  "extensions = [''.ts'', ''.tsx'', ''.js'', ''.jsx'', ''.py'', '''']"

text \<open>
  The inner loop over the extensions: the first path that opens as a document gives the
  related file, with its text cut to 3000 characters.
\<close>

fun tryExtensions :: "Host \<Rightarrow> string \<Rightarrow> string list \<Rightarrow> FileInfo option" where
  "tryExtensions host basePath [] = None"
| "tryExtensions host basePath (ext # exts) =
     (case openTextDocument host (basePath @ ext) of
        Inr doc \<Rightarrow>
          Some \<lparr>uri = basePath @ ext, fi_content = slice (getText doc) 0 3000,
                fi_language = languageId doc\<rparr>
      | Inl e \<Rightarrow> tryExtensions host basePath exts)"

text \<open>The outer loop over the imports, at most three related files.\<close>

fun resolveImports :: "Host \<Rightarrow> string \<Rightarrow> string list \<Rightarrow> nat \<Rightarrow> FileInfo list \<Rightarrow> FileInfo list" where
  "resolveImports host u [] count related = related"
| "resolveImports host u (imp # imps) count related =
     (if count \<ge> 3 then related
      else if take 1 imp = ''.'' then
        (case tryExtensions host (joinPath host u imp) extensions of
           Some f \<Rightarrow> resolveImports host u imps (count + 1) (related @ [f])
         | None \<Rightarrow> resolveImports host u imps count related)
      else resolveImports host u imps count related)"

definition getRelatedFiles :: "Host \<Rightarrow> string \<Rightarrow> string \<Rightarrow> FileInfo list" where
  "getRelatedFiles host u text =
     (case getWorkspaceFolder host u of
        None \<Rightarrow> []
      | Some folder \<Rightarrow> resolveImports host u (importsOf host text) 0 [])"

subsection \<open>analyzeFile\<close>

definition analyzeFile ::
  "Host \<Rightarrow> Config \<Rightarrow> OpenAIService \<Rightarrow> CodeAnalyzer \<Rightarrow> string
     \<Rightarrow> (exn + Anomaly list) \<times> CodeAnalyzer" where
  "analyzeFile host cfg svc this u =
     (if \<not> isConfigured cfg svc
      then (Inl (Error ''OpenAI API key not configured. Please set it in settings.''), this)
      else
        case openTextDocument host u of
          Inl e \<Rightarrow> (Inl e, this)
        | Inr document \<Rightarrow>
            (let text = getText document;
                lang = languageId document;
                related = getRelatedFiles host u text;
                rule_list = getMergedRules cfg host;
                enabledRules =
                  (if length rule_list > 0 then filter enabled rule_list
                   else filter enabled DEFAULT_RULES)
            in case analyze host cfg svc this
                 \<lparr>fileName = u, language = lang, ac_content = text,
                  relatedFiles = map (\<lambda>f. (uri f, fi_content f)) related\<rparr>
                 (Some enabledRules) of
                 (Inl e, this') \<Rightarrow> (Inl e, this')
               | (Inr found, this') \<Rightarrow>
                   (let threshold = severityThreshold cfg;
                        filteredAnomalies = filterBySeverity found (severityKey threshold)
                    in (Inr filteredAnomalies,
                        this'\<lparr>ticks := ticks this' + 1,
                              analysisCache :=
                                Map_set (analysisCache this') u
                                  \<lparr>anomalies = filteredAnomalies, analyzedFiles = [u],
                                   result_timestamp = now host (ticks this')\<rparr>\<rparr>))))"

subsection \<open>analyzeRepository\<close>







subsection \<open>getCachedResults and clearCache\<close>

text \<open>
  \<^verbatim>\<open>getCachedResults\<close>: with a path, the entry of the cache; without one, the entries
  combined, and \<^verbatim>\<open>null\<close> when the combined list of anomalies is empty.
\<close>

definition getCachedResults ::
  "Host \<Rightarrow> CodeAnalyzer \<Rightarrow> string option \<Rightarrow> AnalysisResult option \<times> CodeAnalyzer" where
  "getCachedResults host this u =
     (case u of
        Some path \<Rightarrow> (Map_get (analysisCache this) path, this)
      | None \<Rightarrow>
          let allAnomalies = concat (map anomalies (Map_values (analysisCache this)));
              allFiles = concat (map analyzedFiles (Map_values (analysisCache this)))
          in if length allAnomalies = 0 then (None, this)
             else (Some \<lparr>anomalies = allAnomalies, analyzedFiles = allFiles,
                         result_timestamp = now host (ticks this)\<rparr>,
                   this\<lparr>ticks := ticks this + 1\<rparr>))"

definition clearCache :: "CodeAnalyzer \<Rightarrow> string option \<Rightarrow> CodeAnalyzer" where
  "clearCache this u =
     (case u of
        Some path \<Rightarrow> this\<lparr>analysisCache := Map_delete (analysisCache this) path\<rparr>
      | None \<Rightarrow> this\<lparr>analysisCache := []\<rparr>)"

section \<open>The conversation manager\<close>

text \<open>
  The manager's own state: the \<^verbatim>\<open>Map\<close> from anomaly id to conversation; the values
  written to the key \<^verbatim>\<open>conversations\<close> of the extension's global state, oldest first;
  the conversations fired through \<^verbatim>\<open>onConversationUpdatedEmitter\<close>, oldest first;
  together with the run time. A conversation is a value here: what is written or fired
  is the conversation as it is at that moment.
\<close>

record ConversationManager = Runtime +
  conversations :: "(string \<times> Conversation) list"
  globalState :: "(string \<times> Conversation) list list"
  fired :: "Conversation list"

text \<open>\<^verbatim>\<open>loadConversations\<close>, from the entries of the saved record.\<close>

fun loadConversations ::
  "(string \<times> Conversation) list \<Rightarrow> (string \<times> Conversation) list \<Rightarrow> (string \<times> Conversation) list" where
  "loadConversations convs [] = convs"
| "loadConversations convs ((k, conv) # saved) = loadConversations (Map_set convs k conv) saved"

text \<open>
  \<^verbatim>\<open>saveConversations\<close>: the record \<^verbatim>\<open>data\<close> is filled from the entries of the map in
  their order and written whole.
\<close>

definition saveConversations :: "ConversationManager \<Rightarrow> ConversationManager" where
  "saveConversations this = this\<lparr>globalState := globalState this @ [conversations this]\<rparr>"

definition getConversation :: "ConversationManager \<Rightarrow> string \<Rightarrow> Conversation option" where
  "getConversation this aid = Map_get (conversations this) aid"

definition getAllConversations :: "ConversationManager \<Rightarrow> Conversation list" where
  "getAllConversations this = Map_values (conversations this)"

text \<open>The template literal of the opening message.\<close>

definition openingContent :: "Anomaly \<Rightarrow> string" where
  "openingContent anomaly =
     ''I've identified an issue in your code:\<newline>\<newline>**'' @ title anomaly
     @ ''**\<newline>\<newline>'' @ description anomaly @ ''\<newline>\<newline>''
     @ (case suggestion anomaly of
          None \<Rightarrow> ''''
        | Some s \<Rightarrow> if s \<noteq> [] then ''**Suggestion:** '' @ s else '''')
     @ ''\<newline>\<newline>Would you like me to explain this issue in more detail or help you fix it?''"

definition startConversation ::
  "Host \<Rightarrow> ConversationManager \<Rightarrow> Anomaly \<Rightarrow> Conversation \<times> ConversationManager" where
  "startConversation host this anomaly =
     (case Map_get (conversations this) (anomaly_id anomaly) of
        Some conversation \<Rightarrow> (conversation, this)
      | None \<Rightarrow>
          (let n = ticks this;
               conversation =
                 \<lparr>conv_id = ''conv-'' @ anomaly_id anomaly,
                  anomalyId = anomaly_id anomaly,
                  messages = [],
                  createdAt = now host n,
                  updatedAt = now host (n + 1)\<rparr>;
               initialMessage =
                 \<lparr>msg_id = ''msg-'' @ string_of_nat (now host (n + 2)),
                  role = Assistant,
                  content = openingContent anomaly,
                  timestamp = now host (n + 3)\<rparr>;
               conversation' = conversation\<lparr>messages := messages conversation @ [initialMessage]\<rparr>;
               this' = this\<lparr>ticks := n + 4,
                            conversations :=
                              Map_set (conversations this) (anomaly_id anomaly) conversation'\<rparr>
           in (conversation', saveConversations this')))"

text \<open>
  \<^verbatim>\<open>sendMessage\<close>. The conversation found in the map is changed in place, which is a
  \<^verbatim>\<open>set\<close> at its key here; a failure of \<^verbatim>\<open>chat\<close> leaves the function at the
  \<^verbatim>\<open>await\<close>, after the first change.
\<close>

definition sendMessage ::
  "Host \<Rightarrow> Config \<Rightarrow> OpenAIService \<Rightarrow> ConversationManager \<Rightarrow> string \<Rightarrow> string \<Rightarrow> AnomalyContext
     \<Rightarrow> (exn + Message) \<times> ConversationManager" where
  "sendMessage host cfg svc this aid text anomalyContext =
     (case Map_get (conversations this) aid of
        None \<Rightarrow> (Inl (Error ''Conversation not found''), this)
      | Some conversation \<Rightarrow>
          (let n = ticks this;
               userMessage =
                 \<lparr>msg_id = ''msg-'' @ string_of_nat (now host n),
                  role = User,
                  content = text,
                  timestamp = now host (n + 1)\<rparr>;
               conversation1 =
                 conversation\<lparr>messages := messages conversation @ [userMessage],
                              updatedAt := now host (n + 2)\<rparr>;
               this1 = this\<lparr>ticks := n + 3,
                            conversations := Map_set (conversations this) aid conversation1\<rparr>
           in case chat host cfg svc this1
                     (filter (\<lambda>m. role m \<noteq> System) (messages conversation1)) anomalyContext of
                (Inl e, this1') \<Rightarrow> (Inl e, this1')
              | (Inr response, this1') \<Rightarrow>
                  (let assistantMessage =
                         \<lparr>msg_id = ''msg-'' @ string_of_nat (now host (n + 3) + 1),
                          role = Assistant,
                          content = response,
                          timestamp = now host (n + 4)\<rparr>;
                       conversation2 =
                         conversation1\<lparr>messages := messages conversation1 @ [assistantMessage],
                                       updatedAt := now host (n + 5)\<rparr>;
                       this2 = this1'\<lparr>ticks := n + 6,
                                      conversations :=
                                        Map_set (conversations this1') aid conversation2\<rparr>;
                       this3 = saveConversations this2
                   in (Inr assistantMessage, this3\<lparr>fired := fired this3 @ [conversation2]\<rparr>))))"

definition deleteConversation :: "ConversationManager \<Rightarrow> string \<Rightarrow> ConversationManager" where
  "deleteConversation this aid =
     saveConversations (this\<lparr>conversations := Map_delete (conversations this) aid\<rparr>)"

definition clearAllConversations :: "ConversationManager \<Rightarrow> ConversationManager" where
  "clearAllConversations this = saveConversations (this\<lparr>conversations := []\<rparr>)"

section \<open>Notions of the statements\<close>

text \<open>
  The rule that a list of rules gives for an id when the rules are set one after the other:
  the last rule of the list with that id.
\<close>

definition lastWithId :: "string \<Rightarrow> ReviewRule list \<Rightarrow> ReviewRule option" where
  "lastWithId k rs = find (\<lambda>r. rule_id r = k) (rev rs)"

text \<open>Every entry of a rule map is under the id of its rule.\<close>

definition keyed :: "(string \<times> ReviewRule) list \<Rightarrow> bool" where
  "keyed m = list_all (\<lambda>e. fst e = rule_id (snd e)) m"


section \<open>Example data\<close>

text \<open>An anomaly of a given severity, and a host where nothing is found and every call fails.\<close>

definition sampleAnomaly :: "string \<Rightarrow> Severity \<Rightarrow> Anomaly" where
  "sampleAnomaly name sev =
     \<lparr>anomaly_id = name, anomaly_type = CODE_SMELL, severity = sev,
      location =
        \<lparr>loc_file = ''a.ts'',
         loc_range = \<lparr>range_start = \<lparr>line = 0, character = 0\<rparr>,
                      range_end = \<lparr>line = 0, character = 0\<rparr>\<rparr>,
         codeSnippet = None\<rparr>,
      title = ''t'', description = ''d'', suggestion = None\<rparr>"

definition emptyHost :: Host where
  "emptyHost =
     \<lparr>now = (\<lambda>k. 1000 + k),
      workspaceFolder = None,
      getWorkspaceFolder = (\<lambda>u. None),
      readWorkspaceConfig = (\<lambda>folder. Inl (Error ''ENOENT'')),
      openTextDocument = (\<lambda>u. Inl (Error ''cannot open'')),
      findFiles = (\<lambda>folder pat excl limit. []),
      importsOf = (\<lambda>text. []),
      joinPath = (\<lambda>u imp. u @ ''/../'' @ imp),
      createAnalysis = (\<lambda>m rs context. Rejected (Error ''Connection error.'')),
      createChat = (\<lambda>m msgs context. Rejected (Error ''Connection error.''))\<rparr>"

definition sampleConfig :: Config where
  "sampleConfig =
     \<lparr>openaiApiKey = ''sk-test'', model = ''gpt-4-turbo-preview'', autoAnalyze = False,
      customRules = [],
      excludePatterns = [''**/node_modules/**'', ''**/dist/**'', ''**/.git/**''],
      severityThreshold = Sev_info, maxFilesToAnalyze = 50\<rparr>"

definition sampleService :: OpenAIService where
  "sampleService = initializeClient sampleConfig \<lparr>client = None\<rparr>"

definition freshRuntime :: Runtime where
  "freshRuntime = \<lparr>ticks = 0, console = []\<rparr>"

text \<open>
  The anomaly that the parser makes of \<open>sampleFinding\<close> at index 0 of a response, read at
  time \<open>t\<close>, with the range and the snippet given.
\<close>

definition foundAnomaly ::
  "string \<Rightarrow> nat \<Rightarrow> Severity \<Rightarrow> int \<Rightarrow> int \<Rightarrow> int \<Rightarrow> string \<Rightarrow> Anomaly" where
  "foundAnomaly file_name t sev first_line last_line last_column snippet =
     \<lparr>anomaly_id = file_name @ ''-'' @ string_of_nat 0 @ ''-'' @ string_of_nat t,
      anomaly_type = POTENTIAL_BUG, severity = sev,
      location =
        \<lparr>loc_file = file_name,
         loc_range = \<lparr>range_start = \<lparr>line = first_line, character = 0\<rparr>,
                      range_end = \<lparr>line = last_line, character = last_column\<rparr>\<rparr>,
         codeSnippet = Some snippet\<rparr>,
      title = ''t'', description = ''d'', suggestion = None\<rparr>"

definition tenLines :: string where
  "tenLines = ''l1\<newline>l2\<newline>l3\<newline>l4\<newline>l5\<newline>l6\<newline>l7\<newline>l8\<newline>l9\<newline>l10''"

definition sampleFinding :: "string \<Rightarrow> int \<Rightarrow> int \<Rightarrow> AIAnomaly" where
  "sampleFinding sev first_line last_line =
     \<lparr>ai_type = ''potential_bug'', ai_severity = sev, startLine = first_line,
      endLine = last_line, ai_title = ''t'', ai_description = ''d'', ai_suggestion = None\<rparr>"

definition sampleContext :: AnalysisContext where
  "sampleContext =
     \<lparr>fileName = ''a.ts'', language = ''typescript'', ac_content = tenLines, relatedFiles = []\<rparr>"

text \<open>A host whose remote model gives the same answer to every analysis request.\<close>

definition answeringHost :: "Content option promise \<Rightarrow> Host" where
  "answeringHost answer = emptyHost\<lparr>createAnalysis := (\<lambda>m rs context. answer)\<rparr>"

text \<open>A response body that is no JSON text.\<close>

definition notJson :: Content where
  "notJson = \<lparr>body = ''not json'', reading = Invalid ''Unexpected token''\<rparr>"

definition sampleRule :: "string \<Rightarrow> string \<Rightarrow> ReviewRule" where
  "sampleRule k name =
     \<lparr>rule_id = k, rule_name = name, rule_description = ''d'', enabled = True,
      rule_severity = Sev_warning, pattern = None, prompt = None, languages = None\<rparr>"

text \<open>A host with an open workspace folder whose \<^verbatim>\<open>.syntaxtual.json\<close> holds the rules \<open>ws\<close>.\<close>

definition workspaceHost :: "ReviewRule list \<Rightarrow> Host" where
  "workspaceHost ws =
     emptyHost\<lparr>workspaceFolder := Some ''/w'',
               readWorkspaceConfig :=
                 (\<lambda>folder. Inr \<lparr>rules = Some ws, ws_excludePatterns = None, teamId = None\<rparr>)\<rparr>"

text \<open>Four response bodies that hold an array of anomalies.\<close>

definition twoFindings :: Content where
  \<open>twoFindings =
     \<lparr>body = ''{"anomalies": [{"startLine": 5, "endLine": 5}, {"startLine": 0, "endLine": 12}]}'',
      reading = AnomaliesArray [sampleFinding ''error'' 5 5, sampleFinding ''info'' 0 12]\<rparr>\<close>

definition oneFinding :: Content where
  \<open>oneFinding =
     \<lparr>body = ''{"anomalies": [{"startLine": 2, "endLine": 3}]}'',
      reading = AnomaliesArray [sampleFinding ''warning'' 2 3]\<rparr>\<close>


definition noFindings :: Content where
  \<open>noFindings = \<lparr>body = ''{"anomalies": []}'', reading = AnomaliesArray []\<rparr>\<close>

text \<open>
  A workspace \<^verbatim>\<open>/w\<close> with the files \<^verbatim>\<open>a.ts\<close>, \<^verbatim>\<open>b.ts\<close> and \<^verbatim>\<open>c.ts\<close>, each of ten
  lines; \<^verbatim>\<open>d.ts\<close> can be opened too. The remote model finds two anomalies in
  \<^verbatim>\<open>a.ts\<close>, one in \<^verbatim>\<open>c.ts\<close>, none anywhere else, and rejects the request for
  \<^verbatim>\<open>b.ts\<close>.
\<close>

definition projectHost :: Host where
  "projectHost =
     emptyHost\<lparr>workspaceFolder := Some ''/w'',
       getWorkspaceFolder := (\<lambda>u. Some ''/w''),
       openTextDocument :=
         (\<lambda>u. if u = ''/w/a.ts'' \<or> u = ''/w/b.ts'' \<or> u = ''/w/c.ts'' \<or> u = ''/w/d.ts''
              then Inr \<lparr>getText = tenLines, languageId = ''typescript''\<rparr>
              else Inl (Error ''cannot open'')),
       findFiles :=
         (\<lambda>folder pat excl limit.
            if pat = ''**/*.ts'' then [''/w/a.ts'', ''/w/b.ts'', ''/w/c.ts''] else []),
       createAnalysis :=
         (\<lambda>m rs context.
            if fileName context = ''/w/a.ts'' then Resolved (Some twoFindings)
            else if fileName context = ''/w/b.ts'' then Rejected (Error ''429 Too Many Requests'')
            else if fileName context = ''/w/c.ts'' then Resolved (Some oneFinding)
            else Resolved (Some noFindings))\<rparr>"

definition warningConfig :: Config where
  "warningConfig = sampleConfig\<lparr>severityThreshold := Sev_warning\<rparr>"


text \<open>An analyzer with an empty cache, and one with three entries.\<close>

definition freshAnalyzer :: CodeAnalyzer where
  "freshAnalyzer = \<lparr>ticks = 0, console = [], analysisCache = []\<rparr>"

definition threeEntries :: CodeAnalyzer where
  "threeEntries =
     \<lparr>ticks = 7, console = [],
      analysisCache =
        [(''/w/a.ts'', \<lparr>anomalies = [sampleAnomaly ''x'' Sev_error, sampleAnomaly ''y'' Sev_info],
                        analyzedFiles = [''/w/a.ts''], result_timestamp = 1\<rparr>),
         (''/w/d.ts'', \<lparr>anomalies = [], analyzedFiles = [''/w/d.ts''], result_timestamp = 2\<rparr>),
         (''/w/c.ts'', \<lparr>anomalies = [sampleAnomaly ''z'' Sev_warning],
                        analyzedFiles = [''/w/c.ts''], result_timestamp = 3\<rparr>)]\<rparr>"

text \<open>A conversation manager started on an empty global state.\<close>

definition freshManager :: ConversationManager where
  "freshManager =
     \<lparr>ticks = 0, console = [], conversations = loadConversations [] [], globalState = [],
      fired = []\<rparr>"

definition sampleAnomalyContext :: AnomalyContext where
  "sampleAnomalyContext =
     \<lparr>ctx_file = ''a.ts'', ctx_range_start = 1, ctx_range_end = 1, ctx_codeSnippet = ''l1'',
      ctx_title = ''t'', ctx_description = ''d'', ctx_type = ''code_smell'',
      ctx_language = ''typescript''\<rparr>"

section \<open>Maps, lists and the run time\<close>

lemma map_of_Map_set: "map_of (Map_set m k v) = (map_of m)(k \<mapsto> v)"
  by (induction m k v rule: Map_set.induct) (auto simp: fun_eq_iff)

lemma keys_Map_set: "fst ` set (Map_set m k v) = insert k (fst ` set m)"
  by (induction m k v rule: Map_set.induct) auto

lemma distinct_Map_set: "distinct (map fst m) \<Longrightarrow> distinct (map fst (Map_set m k v))"
proof (induction m)
  case Nil
  then show ?case by simp
next
  case (Cons e m)
  obtain k' v' where e: "e = (k', v')" by (cases e)
  show ?case
  proof (cases "k' = k")
    case True
    with Cons.prems e show ?thesis by simp
  next
    case False
    have "k' \<notin> fst ` set (Map_set m k v)"
      using Cons.prems e False by (simp add: keys_Map_set)
    with Cons e False show ?thesis by simp
  qed
qed

lemma Map_get_Map_set: "Map_get (Map_set m k v) k' = (if k' = k then Some v else Map_get m k')"
  by (simp add: Map_get_def map_of_Map_set)

lemma Map_get_Map_delete: "Map_get (Map_delete m k) k = None"
  by (induction m) (auto simp: Map_get_def Map_delete_def)

lemma distinct_Map_delete: "distinct (map fst m) \<Longrightarrow> distinct (map fst (Map_delete m k))"
  by (simp add: Map_delete_def distinct_map_filter)

lemma entries_Map_set:
  "distinct (map fst m) \<Longrightarrow> filter (\<lambda>e. fst e = k) (Map_set m k v) = [(k, v)]"
proof (induction m k v rule: Map_set.induct)
  case (1 k v)
  then show ?case by simp
next
  case (2 k' v' m k v)
  have "filter (\<lambda>e. fst e = k') m = []" using "2.prems" by (auto simp: filter_empty_conv)
  with 2 show ?case by auto
qed

lemma find_append:
  "find P (xs @ ys) = (case find P xs of None \<Rightarrow> find P ys | Some x \<Rightarrow> Some x)"
  by (induction xs) auto

lemma find_in_set: "find P xs = Some x \<Longrightarrow> x \<in> set xs"
  by (induction xs) (auto split: if_splits)

lemma find_holds: "find P xs = Some x \<Longrightarrow> P x"
  by (induction xs) (auto split: if_splits)

lemma ticks_console_error [simp]: "ticks (console_error label e rt) = ticks rt"
  by (simp add: console_error_def)

lemma console_console_error [simp]:
  "console (console_error label e rt) = console rt @ [(label, e)]"
  by (simp add: console_error_def)

lemma analysisCache_console_error [simp]:
  "analysisCache (console_error label e this) = analysisCache this"
  by (simp add: console_error_def)

lemma conversations_console_error [simp]:
  "conversations (console_error label e this) = conversations this"
  "globalState (console_error label e this) = globalState this"
  "fired (console_error label e this) = fired this"
  by (simp_all add: console_error_def)

section \<open>Severity filter: properties\<close>

lemma levelOf_severityKey: "levelOf (severityKey s) = rank s"
  by (cases s) (simp_all add: levelOf_def severityOrder_def)

lemma filterBySeverity_filter:
  "filterBySeverity as (severityKey t) = filter (\<lambda>a. rank (severity a) \<le> rank t) as"
  by (simp add: filterBySeverity_def levelOf_severityKey)

text \<open>
  Claim C1. For every threshold \<open>t\<close> and every list of anomalies \<open>as\<close>, the filter keeps
  exactly the anomalies of \<open>as\<close> whose rank is at most the rank of \<open>t\<close> (in their order
  and multiplicity), with rank error = 0, warning = 1, info = 2; so an anomaly of \<open>as\<close>
  whose rank is at or below the threshold's is never removed, and one above it never kept.
\<close>

theorem filterBySeverity_exact:
  "filterBySeverity as (severityKey t) = filter (\<lambda>a. rank (severity a) \<le> rank t) as
   \<and> set (filterBySeverity as (severityKey t)) = {a \<in> set as. rank (severity a) \<le> rank t}
   \<and> (a \<in> set as \<and> rank (severity a) \<le> rank t \<longrightarrow> a \<in> set (filterBySeverity as (severityKey t)))
   \<and> rank Sev_error = 0 \<and> rank Sev_warning = 1 \<and> rank Sev_info = 2"
  by (simp add: filterBySeverity_filter)

theorem filterBySeverity_exact_witness:
  "filterBySeverity
     [sampleAnomaly ''a'' Sev_error, sampleAnomaly ''b'' Sev_info, sampleAnomaly ''c'' Sev_warning]
     (severityKey Sev_warning)
   = [sampleAnomaly ''a'' Sev_error, sampleAnomaly ''c'' Sev_warning]"
  using filterBySeverity_exact
    [of "[sampleAnomaly ''a'' Sev_error, sampleAnomaly ''b'' Sev_info, sampleAnomaly ''c'' Sev_warning]"
        Sev_warning "sampleAnomaly ''a'' Sev_error"]
  by (simp add: sampleAnomaly_def)

section \<open>The anomaly parser: line ranges\<close>









lemma tenLines_length: "length (split CHR ''\<newline>'' tenLines) = 10"
  by (simp add: tenLines_def)



lemma sampleService_client: "client sampleService = Some ''sk-test''"
  by (simp add: sampleService_def initializeClient_def sampleConfig_def)

lemmas parser_defs =
  parseAnomalies_def parseAnomaly_def Range_new_def Position_new_def isBefore_def
  lineLength_def illegalArgument_def Let_def



section \<open>analyze: which responses fail and which give an empty list\<close>

lemma parseAnomalies_Nil: "parseAnomalies clk n [] f text = (Inr [], n)"
  by (simp add: parseAnomalies_def)

lemma parseAnomalies_empty:
  "fst (parseAnomalies clk n ais f text) = Inr [] \<longleftrightarrow> ais = []"
  by (cases ais) (auto simp: parseAnomalies_def split: sum.splits prod.splits)

text \<open>
  Claim C2, as amended. With a client set, \<^verbatim>\<open>analyze\<close> fails with the error of the
  remote call when the call is rejected, and it also fails, with the error thrown while
  parsing, when the response has a non-empty content that is no JSON text or holds no
  array of anomalies: the \<^verbatim>\<open>catch\<close> block logs and throws again whatever was thrown.
  It returns the empty list exactly when the response has no content, an empty content,
  or an empty array of anomalies.
\<close>

theorem analyze_failure_policy:
  assumes "client svc \<noteq> None"
  shows "let answer = createAnalysis host (model cfg)
                        (case rs of Some r \<Rightarrow> r | None \<Rightarrow> filter enabled DEFAULT_RULES) context;
             outcome = analyze host cfg svc rt context rs
         in (answer = Rejected e \<longrightarrow>
               outcome = (Inl e, console_error ''OpenAI analysis error:'' e rt))
          \<and> (answer = Resolved (Some c) \<and> body c \<noteq> [] \<and> reading c = Invalid m \<longrightarrow>
               outcome = (Inl (SyntaxError m),
                          console_error ''OpenAI analysis error:'' (SyntaxError m) rt))
          \<and> (answer = Resolved (Some c) \<and> body c \<noteq> [] \<and> reading c = NoArray m \<longrightarrow>
               outcome = (Inl (TypeError m),
                          console_error ''OpenAI analysis error:'' (TypeError m) rt))
          \<and> (fst outcome = Inr [] \<longleftrightarrow>
                answer = Resolved None
                \<or> (\<exists>c'. answer = Resolved (Some c')
                          \<and> (body c' = [] \<or> reading c' = AnomaliesArray [])))"
  using assms
  by (auto simp: analyze_def Let_def parseAnomalies_empty parseAnomalies_Nil case_prod_beta
           split: promise.splits option.splits json_reading.splits sum.splits)

theorem analyze_failure_policy_witness:
  "analyze (answeringHost (Resolved (Some notJson))) sampleConfig sampleService freshRuntime
     sampleContext None
     = (Inl (SyntaxError ''Unexpected token''),
        \<lparr>ticks = 0, console = [(''OpenAI analysis error:'', SyntaxError ''Unexpected token'')]\<rparr>)
   \<and> fst (analyze (answeringHost (Resolved None)) sampleConfig sampleService freshRuntime
            sampleContext None)
     = Inr []"
  using analyze_failure_policy
          [of sampleService "answeringHost (Resolved (Some notJson))" sampleConfig None sampleContext
              freshRuntime "Error ''Connection error.''" notJson "''Unexpected token''"]
        analyze_failure_policy
          [of sampleService "answeringHost (Resolved None)" sampleConfig None sampleContext
              freshRuntime]
  by (simp add: sampleService_client answeringHost_def emptyHost_def notJson_def Let_def
        console_error_def freshRuntime_def)

text \<open>
  The claim as stated fails: on the body \<^verbatim>\<open>not json\<close>, where \<^verbatim>\<open>JSON.parse\<close> throws,
  \<^verbatim>\<open>analyze\<close> fails with the \<^verbatim>\<open>SyntaxError\<close> and does not return the empty list.
\<close>

theorem analyze_unparsable_counterexample:
  "body notJson = ''not json'' \<and> reading notJson = Invalid ''Unexpected token''
   \<and> fst (analyze (answeringHost (Resolved (Some notJson))) sampleConfig sampleService
            freshRuntime sampleContext None)
       = Inl (SyntaxError ''Unexpected token'')
   \<and> fst (analyze (answeringHost (Resolved (Some notJson))) sampleConfig sampleService
            freshRuntime sampleContext None)
       \<noteq> Inr []"
  by (simp add: analyze_def sampleService_client answeringHost_def emptyHost_def notJson_def)

section \<open>getMergedRules: precedence of the user's rules\<close>

lemma keyed_Nil: "keyed []"
  by (simp add: keyed_def)

lemma keyed_Map_set: "keyed m \<Longrightarrow> keyed (Map_set m (rule_id r) r)"
  by (induction m) (auto simp: keyed_def)

lemma map_of_setRules:
  "map_of (setRules m rs) k = (case lastWithId k rs of Some r \<Rightarrow> Some r | None \<Rightarrow> map_of m k)"
  unfolding lastWithId_def
  by (induction rs arbitrary: m)
     (simp_all add: map_of_Map_set find_append split: option.splits)

lemma distinct_setRules: "distinct (map fst m) \<Longrightarrow> distinct (map fst (setRules m rs))"
  by (induction rs arbitrary: m) (simp_all add: distinct_Map_set)

lemma keyed_setRules: "keyed m \<Longrightarrow> keyed (setRules m rs)"
  by (induction rs arbitrary: m) (simp_all add: keyed_Map_set)

lemma keys_setRules: "fst ` set (setRules m rs) = fst ` set m \<union> rule_id ` set rs"
  by (induction rs arbitrary: m) (auto simp: keys_Map_set)

lemma keyed_map_fst: "keyed m \<Longrightarrow> map fst m = map rule_id (map snd m)"
  by (induction m) (auto simp: keyed_def)

lemma find_values:
  "keyed m \<Longrightarrow> find (\<lambda>r. rule_id r = k) (map snd m) = map_of m k"
  by (induction m) (auto simp: keyed_def)

lemma mergeRules_ids_distinct: "distinct (map rule_id (mergeRules ws us))"
proof -
  have "keyed (setRules (setRules [] ws) us)"
    by (simp add: keyed_setRules keyed_Nil)
  then have "map rule_id (mergeRules ws us) = map fst (setRules (setRules [] ws) us)"
    by (simp add: mergeRules_def Map_values_def keyed_map_fst)
  then show ?thesis by (simp add: distinct_setRules)
qed

lemma mergeRules_ids: "rule_id ` set (mergeRules ws us) = rule_id ` set ws \<union> rule_id ` set us"
proof -
  have "keyed (setRules (setRules [] ws) us)"
    by (simp add: keyed_setRules keyed_Nil)
  then have "map rule_id (mergeRules ws us) = map fst (setRules (setRules [] ws) us)"
    by (simp add: mergeRules_def Map_values_def keyed_map_fst)
  then have "set (map rule_id (mergeRules ws us)) = set (map fst (setRules (setRules [] ws) us))"
    by simp
  then show ?thesis by (simp add: keys_setRules)
qed

lemma mergeRules_find:
  "find (\<lambda>r. rule_id r = k) (mergeRules ws us)
     = (case lastWithId k us of Some u \<Rightarrow> Some u | None \<Rightarrow> lastWithId k ws)"
proof -
  have "keyed (setRules (setRules [] ws) us)"
    by (simp add: keyed_setRules keyed_Nil)
  then show ?thesis
    by (simp add: mergeRules_def Map_values_def find_values map_of_setRules split: option.splits)
qed

lemma lastWithId_distinct:
  "distinct (map rule_id rs) \<Longrightarrow> r \<in> set rs \<Longrightarrow> lastWithId (rule_id r) rs = Some r"
  unfolding lastWithId_def
proof (induction rs)
  case Nil
  then show ?case by simp
next
  case (Cons a rs)
  show ?case
  proof (cases "find (\<lambda>x. rule_id x = rule_id r) (rev rs)")
    case None
    then have "r \<notin> set rs" by (auto simp: find_None_iff)
    with Cons.prems None show ?thesis by (simp add: find_append)
  next
    case (Some x)
    then have "x \<in> set rs" and "rule_id x = rule_id r"
      using find_in_set [OF Some] find_holds [OF Some] by simp_all
    then have "r \<in> set rs" using Cons.prems by (cases "r = a") (auto simp: image_iff)
    with Cons show ?thesis by (simp add: find_append)
  qed
qed

lemma lastWithId_None: "lastWithId k rs = None \<longleftrightarrow> k \<notin> rule_id ` set rs"
  unfolding lastWithId_def by (auto simp: find_None_iff)

text \<open>
  Claim C7. Let \<open>ws\<close> be the rules of the workspace file (none when there is no folder,
  no readable file or no rule list) and \<open>us\<close> the user's rules. The merged rules have
  pairwise different ids, and their ids are those of \<open>ws\<close> and of \<open>us\<close>. For every id
  \<open>k\<close> the merged rule with that id is the last rule of \<open>us\<close> with id \<open>k\<close> when there is
  one, and the last rule of \<open>ws\<close> with id \<open>k\<close> otherwise: the workspace rules are set
  first and the user rules over them. So, with the ids of \<open>us\<close> pairwise different, every
  user rule is in the result, whole, and is the only rule there with its id, also when a
  workspace rule has the same id; and with the ids of \<open>ws\<close> pairwise different, every
  workspace rule whose id no user rule has is in the result.
\<close>

theorem getMergedRules_precedence:
  "let us = customRules cfg;
       ws = (case loadWorkspaceConfig host of
               None \<Rightarrow> []
             | Some wc \<Rightarrow> (case rules wc of None \<Rightarrow> [] | Some rs \<Rightarrow> rs));
       merged = getMergedRules cfg host
   in distinct (map rule_id merged)
      \<and> rule_id ` set merged = rule_id ` set ws \<union> rule_id ` set us
      \<and> find (\<lambda>r. rule_id r = k) merged
          = (case lastWithId k us of Some u \<Rightarrow> Some u | None \<Rightarrow> lastWithId k ws)
      \<and> (distinct (map rule_id us) \<and> u \<in> set us \<longrightarrow>
             u \<in> set merged \<and> (\<forall>r \<in> set merged. rule_id r = rule_id u \<longrightarrow> r = u))
      \<and> (distinct (map rule_id ws) \<and> w \<in> set ws \<and> rule_id w \<notin> rule_id ` set us \<longrightarrow>
             w \<in> set merged)"
proof -
  define us where "us = customRules cfg"
  define ws where "ws = (case loadWorkspaceConfig host of
               None \<Rightarrow> []
             | Some wc \<Rightarrow> (case rules wc of None \<Rightarrow> [] | Some rs \<Rightarrow> rs))"
  have merged: "getMergedRules cfg host = mergeRules ws us"
    by (simp add: getMergedRules_def us_def ws_def)
  have unique: "r = r'" if "r \<in> set (mergeRules ws us)" "r' \<in> set (mergeRules ws us)"
      "rule_id r = rule_id r'" for r r'
    using that mergeRules_ids_distinct [of ws us] by (simp add: distinct_map inj_on_def)
  have user: "u \<in> set (mergeRules ws us)" if "distinct (map rule_id us)" "u \<in> set us"
    using find_in_set [of "\<lambda>r. rule_id r = rule_id u" "mergeRules ws us" u] that
    by (simp add: mergeRules_find lastWithId_distinct)
  have workspace: "w \<in> set (mergeRules ws us)"
    if "distinct (map rule_id ws)" "w \<in> set ws" "rule_id w \<notin> rule_id ` set us"
  proof -
    have "lastWithId (rule_id w) us = None" using that(3) by (simp add: lastWithId_None)
    then show ?thesis
      using find_in_set [of "\<lambda>r. rule_id r = rule_id w" "mergeRules ws us" w] that
      by (simp add: mergeRules_find lastWithId_distinct)
  qed
  show ?thesis
    unfolding Let_def merged us_def [symmetric] ws_def [symmetric]
    using mergeRules_ids_distinct [of ws us] mergeRules_ids [of ws us] mergeRules_find [of k ws us]
      user workspace unique
    by blast
qed

theorem getMergedRules_precedence_witness:
  "getMergedRules (sampleConfig\<lparr>customRules := [sampleRule ''a'' ''user a'', sampleRule ''c'' ''user c'']\<rparr>)
     (workspaceHost [sampleRule ''a'' ''workspace a'', sampleRule ''b'' ''workspace b''])
   = [sampleRule ''a'' ''user a'', sampleRule ''b'' ''workspace b'', sampleRule ''c'' ''user c'']
   \<and> sampleRule ''a'' ''user a''
       \<in> set (getMergedRules
                (sampleConfig\<lparr>customRules := [sampleRule ''a'' ''user a'', sampleRule ''c'' ''user c'']\<rparr>)
                (workspaceHost [sampleRule ''a'' ''workspace a'', sampleRule ''b'' ''workspace b'']))
   \<and> sampleRule ''a'' ''workspace a''
       \<notin> set (getMergedRules
                (sampleConfig\<lparr>customRules := [sampleRule ''a'' ''user a'', sampleRule ''c'' ''user c'']\<rparr>)
                (workspaceHost [sampleRule ''a'' ''workspace a'', sampleRule ''b'' ''workspace b'']))"
  using getMergedRules_precedence
    [of "sampleConfig\<lparr>customRules := [sampleRule ''a'' ''user a'', sampleRule ''c'' ''user c'']\<rparr>"
        "workspaceHost [sampleRule ''a'' ''workspace a'', sampleRule ''b'' ''workspace b'']"
        "''a''" "sampleRule ''a'' ''user a''" "sampleRule ''b'' ''workspace b''"]
  by (simp add: getMergedRules_def mergeRules_def Map_values_def loadWorkspaceConfig_def
        workspaceHost_def emptyHost_def sampleConfig_def sampleRule_def)

section \<open>The analysis cache\<close>

lemma analyze_analysisCache:
  "analysisCache (snd (analyze host cfg svc this context rs)) = analysisCache this"
  by (simp add: analyze_def Let_def case_prod_beta console_error_def
        split: promise.splits option.splits json_reading.splits sum.splits)

lemma analyzeFile_Inr:
  assumes "fst (analyzeFile host cfg svc this p) = Inr found"
  shows "\<exists>doc raw this1.
           openTextDocument host p = Inr doc
           \<and> analyze host cfg svc this
                \<lparr>fileName = p, language = languageId doc, ac_content = getText doc,
                 relatedFiles = map (\<lambda>f. (uri f, fi_content f)) (getRelatedFiles host p (getText doc))\<rparr>
                (Some (if length (getMergedRules cfg host) > 0
                       then filter enabled (getMergedRules cfg host)
                       else filter enabled DEFAULT_RULES))
              = (Inr raw, this1)
           \<and> found = filterBySeverity raw (severityKey (severityThreshold cfg))
           \<and> snd (analyzeFile host cfg svc this p)
               = this1\<lparr>ticks := ticks this1 + 1,
                        analysisCache :=
                          Map_set (analysisCache this) p
                            \<lparr>anomalies = found, analyzedFiles = [p],
                             result_timestamp = now host (ticks this1)\<rparr>\<rparr>"
proof -
  have cache: "analysisCache this1 = analysisCache this"
    if "analyze host cfg svc this ctx rs = (r, this1)" for ctx rs r this1
    using analyze_analysisCache [of host cfg svc this ctx rs] that by simp
  show ?thesis
    using assms
    by (auto simp: analyzeFile_def Let_def cache split: if_splits sum.splits prod.splits)
qed

lemma analyzeFile_Inl:
  assumes "fst (analyzeFile host cfg svc this p) = Inl e"
  shows "analysisCache (snd (analyzeFile host cfg svc this p)) = analysisCache this"
proof -
  have cache: "analysisCache this1 = analysisCache this"
    if "analyze host cfg svc this ctx rs = (r, this1)" for ctx rs r this1
    using analyze_analysisCache [of host cfg svc this ctx rs] that by simp
  show ?thesis
    using assms
    by (auto simp: analyzeFile_def Let_def cache split: if_splits sum.splits prod.splits)
qed


lemmas sample_defs =
  projectHost_def emptyHost_def warningConfig_def sampleConfig_def freshAnalyzer_def
  twoFindings_def oneFinding_def noFindings_def sampleFinding_def foundAnomaly_def tenLines_def

lemmas analyzeFile_defs =
  analyzeFile_def isConfigured_def isApiKeyConfigured_def sampleService_client analyze_def
  getRelatedFiles_def getMergedRules_def mergeRules_def loadWorkspaceConfig_def Map_values_def
  filterBySeverity_def levelOf_def severityOrder_def mapSeverity_def mapAnomalyType_def
  parser_defs slice_def slice_index_def

lemma analyzeFile_a:
  "fst (analyzeFile projectHost warningConfig sampleService freshAnalyzer ''/w/a.ts'')
     = Inr [foundAnomaly ''/w/a.ts'' 1000 Sev_error 4 4 2 ''l5'']"
  by (simp add: analyzeFile_defs sample_defs)

text \<open>
  Claim C4. When \<^verbatim>\<open>analyzeFile(p)\<close> returns the list \<open>found\<close>, then
  \<^verbatim>\<open>getCachedResults(p)\<close> returns an entry whose anomalies are \<open>found\<close> and whose
  analyzed files are \<open>[p]\<close>, and leaves the analyzer as it is; \<open>found\<close> is the result
  of \<^verbatim>\<open>analyze\<close> on the file, filtered by the configured threshold; and whatever the
  cache held for \<open>p\<close> before, it holds this one entry for \<open>p\<close> after, its keys staying
  pairwise different. A failed \<^verbatim>\<open>analyzeFile\<close> leaves the cache as it was. After
  \<^verbatim>\<open>clearCache(p)\<close>, \<^verbatim>\<open>getCachedResults(p)\<close> returns nothing.
\<close>

theorem analyzeFile_cache:
  "let outcome = analyzeFile host cfg svc this p;
       this' = snd outcome
   in (fst outcome = Inr found \<longrightarrow>
         (\<exists>r. getCachedResults host' this' (Some p) = (Some r, this')
              \<and> anomalies r = found \<and> analyzedFiles r = [p])
         \<and> (\<exists>doc raw.
               openTextDocument host p = Inr doc
               \<and> fst (analyze host cfg svc this
                    \<lparr>fileName = p, language = languageId doc, ac_content = getText doc,
                     relatedFiles =
                       map (\<lambda>f. (uri f, fi_content f)) (getRelatedFiles host p (getText doc))\<rparr>
                    (Some (if length (getMergedRules cfg host) > 0
                           then filter enabled (getMergedRules cfg host)
                           else filter enabled DEFAULT_RULES)))
                  = Inr raw
               \<and> found = filterBySeverity raw (severityKey (severityThreshold cfg)))
         \<and> (distinct (map fst (analysisCache this)) \<longrightarrow>
               distinct (map fst (analysisCache this'))
               \<and> length (filter (\<lambda>e. fst e = p) (analysisCache this')) = 1))
    \<and> (fst outcome = Inl e \<longrightarrow> analysisCache this' = analysisCache this)
    \<and> fst (getCachedResults host' (clearCache that (Some p)) (Some p)) = None
    \<and> (distinct (map fst (analysisCache that)) \<longrightarrow>
          distinct (map fst (analysisCache (clearCache that (Some p)))))"
proof -
  let ?this' = "snd (analyzeFile host cfg svc this p)"
  have success:
    "(\<exists>r. getCachedResults host' ?this' (Some p) = (Some r, ?this')
          \<and> anomalies r = found \<and> analyzedFiles r = [p])
     \<and> (\<exists>doc raw.
           openTextDocument host p = Inr doc
           \<and> fst (analyze host cfg svc this
                \<lparr>fileName = p, language = languageId doc, ac_content = getText doc,
                 relatedFiles =
                   map (\<lambda>f. (uri f, fi_content f)) (getRelatedFiles host p (getText doc))\<rparr>
                (Some (if length (getMergedRules cfg host) > 0
                       then filter enabled (getMergedRules cfg host)
                       else filter enabled DEFAULT_RULES)))
              = Inr raw
           \<and> found = filterBySeverity raw (severityKey (severityThreshold cfg)))
     \<and> (distinct (map fst (analysisCache this)) \<longrightarrow>
           distinct (map fst (analysisCache ?this'))
           \<and> length (filter (\<lambda>e. fst e = p) (analysisCache ?this')) = 1)"
    if ok: "fst (analyzeFile host cfg svc this p) = Inr found"
  proof -
    from analyzeFile_Inr [OF ok] obtain doc raw this1 where
      doc: "openTextDocument host p = Inr doc"
      and raw: "analyze host cfg svc this
                \<lparr>fileName = p, language = languageId doc, ac_content = getText doc,
                 relatedFiles = map (\<lambda>f. (uri f, fi_content f)) (getRelatedFiles host p (getText doc))\<rparr>
                (Some (if length (getMergedRules cfg host) > 0
                       then filter enabled (getMergedRules cfg host)
                       else filter enabled DEFAULT_RULES))
              = (Inr raw, this1)"
      and found: "found = filterBySeverity raw (severityKey (severityThreshold cfg))"
      and state: "?this'
               = this1\<lparr>ticks := ticks this1 + 1,
                        analysisCache :=
                          Map_set (analysisCache this) p
                            \<lparr>anomalies = found, analyzedFiles = [p],
                             result_timestamp = now host (ticks this1)\<rparr>\<rparr>"
      by blast
    have cached: "\<exists>r. getCachedResults host' ?this' (Some p) = (Some r, ?this')
              \<and> anomalies r = found \<and> analyzedFiles r = [p]"
      by (simp add: state getCachedResults_def Map_get_Map_set)
    have filtered: "fst (analyze host cfg svc this
                \<lparr>fileName = p, language = languageId doc, ac_content = getText doc,
                 relatedFiles = map (\<lambda>f. (uri f, fi_content f)) (getRelatedFiles host p (getText doc))\<rparr>
                (Some (if length (getMergedRules cfg host) > 0
                       then filter enabled (getMergedRules cfg host)
                       else filter enabled DEFAULT_RULES))) = Inr raw"
      by (simp only: raw fst_conv)
    have one: "distinct (map fst (analysisCache this)) \<longrightarrow>
               distinct (map fst (analysisCache ?this'))
               \<and> length (filter (\<lambda>e. fst e = p) (analysisCache ?this')) = 1"
      by (simp add: state distinct_Map_set entries_Map_set)
    from cached doc filtered found one show ?thesis by blast
  qed
  have failure: "analysisCache ?this' = analysisCache this"
    if "fst (analyzeFile host cfg svc this p) = Inl e"
    using that by (rule analyzeFile_Inl)
  have cleared: "fst (getCachedResults host' (clearCache that (Some p)) (Some p)) = None"
    by (simp add: getCachedResults_def clearCache_def Map_get_Map_delete)
  have kept: "distinct (map fst (analysisCache that)) \<longrightarrow>
          distinct (map fst (analysisCache (clearCache that (Some p))))"
    by (simp add: clearCache_def distinct_Map_delete)
  show ?thesis
    unfolding Let_def using success failure cleared kept by blast
qed

theorem analyzeFile_cache_witness:
  "fst (analyzeFile projectHost warningConfig sampleService freshAnalyzer ''/w/a.ts'')
     = Inr [foundAnomaly ''/w/a.ts'' 1000 Sev_error 4 4 2 ''l5'']
   \<and> (\<exists>r. fst (getCachedResults projectHost
                  (snd (analyzeFile projectHost warningConfig sampleService freshAnalyzer ''/w/a.ts''))
                  (Some ''/w/a.ts'')) = Some r
          \<and> anomalies r = [foundAnomaly ''/w/a.ts'' 1000 Sev_error 4 4 2 ''l5'']
          \<and> analyzedFiles r = [''/w/a.ts''])
   \<and> fst (getCachedResults projectHost
            (clearCache
               (snd (analyzeFile projectHost warningConfig sampleService freshAnalyzer ''/w/a.ts''))
               (Some ''/w/a.ts''))
            (Some ''/w/a.ts'')) = None"
  using analyzeFile_cache
          [of projectHost warningConfig sampleService freshAnalyzer "''/w/a.ts''"
              "[foundAnomaly ''/w/a.ts'' 1000 Sev_error 4 4 2 ''l5'']"
              projectHost "Error ''none''"
              "snd (analyzeFile projectHost warningConfig sampleService freshAnalyzer ''/w/a.ts'')"]
        analyzeFile_a
  by (auto simp: Let_def)

text \<open>
  Claim C8, as amended. Without a path, \<^verbatim>\<open>getCachedResults\<close> returns nothing exactly
  when no cached entry holds an anomaly, which is so when nothing is cached; otherwise it
  returns the anomalies of all cached entries and their analyzed file paths, in the order
  of the cache, with the time of the call.
\<close>

theorem getCachedResults_aggregate:
  "let entries = Map_values (analysisCache this);
       outcome = fst (getCachedResults host this None)
   in (outcome = None \<longleftrightarrow> (\<forall>r \<in> set entries. anomalies r = []))
      \<and> (analysisCache this = [] \<longrightarrow> outcome = None)
      \<and> (\<forall>agg. outcome = Some agg \<longrightarrow>
            anomalies agg = concat (map anomalies entries)
            \<and> analyzedFiles agg = concat (map analyzedFiles entries)
            \<and> result_timestamp agg = now host (ticks this))"
  by (auto simp: getCachedResults_def Let_def Map_values_def)

theorem getCachedResults_aggregate_witness:
  "fst (getCachedResults emptyHost threeEntries None)
     = Some \<lparr>anomalies = [sampleAnomaly ''x'' Sev_error, sampleAnomaly ''y'' Sev_info,
                           sampleAnomaly ''z'' Sev_warning],
             analyzedFiles = [''/w/a.ts'', ''/w/d.ts'', ''/w/c.ts''],
             result_timestamp = 1007\<rparr>
   \<and> fst (getCachedResults emptyHost freshAnalyzer None) = None"
  using getCachedResults_aggregate [of threeEntries emptyHost]
        getCachedResults_aggregate [of freshAnalyzer emptyHost]
  by (simp add: getCachedResults_def threeEntries_def freshAnalyzer_def emptyHost_def
        Map_values_def Let_def)

text \<open>
  The claim as stated fails: after the analysis of \<^verbatim>\<open>d.ts\<close>, where the model finds
  nothing, the cache holds an entry for \<^verbatim>\<open>d.ts\<close>, and \<^verbatim>\<open>getCachedResults\<close> without a
  path returns nothing all the same.
\<close>

theorem getCachedResults_absent_counterexample:
  "fst (analyzeFile projectHost sampleConfig sampleService freshAnalyzer ''/w/d.ts'') = Inr []
   \<and> analysisCache (snd (analyzeFile projectHost sampleConfig sampleService freshAnalyzer ''/w/d.ts''))
       \<noteq> []
   \<and> fst (getCachedResults projectHost
            (snd (analyzeFile projectHost sampleConfig sampleService freshAnalyzer ''/w/d.ts''))
            (Some ''/w/d.ts''))
       \<noteq> None
   \<and> fst (getCachedResults projectHost
            (snd (analyzeFile projectHost sampleConfig sampleService freshAnalyzer ''/w/d.ts''))
            None)
       = None"
  by (simp add: analyzeFile_defs sample_defs getCachedResults_def Map_get_def)

section \<open>analyzeRepository: a file that fails is logged and skipped\<close>












section \<open>Conversations\<close>

lemma startConversation_existing:
  "getConversation this (anomaly_id anomaly) = Some c \<Longrightarrow>
   startConversation host this anomaly = (c, this)"
  by (simp add: startConversation_def getConversation_def)

lemma startConversation_new:
  assumes "getConversation this (anomaly_id anomaly) = None"
  shows "\<exists>m. fst (startConversation host this anomaly)
               = \<lparr>conv_id = ''conv-'' @ anomaly_id anomaly, anomalyId = anomaly_id anomaly,
                  messages = [m], createdAt = now host (ticks this),
                  updatedAt = now host (ticks this + 1)\<rparr>
            \<and> role m = Assistant \<and> content m = openingContent anomaly
            \<and> getConversation (snd (startConversation host this anomaly)) (anomaly_id anomaly)
                = Some (fst (startConversation host this anomaly))
            \<and> globalState (snd (startConversation host this anomaly))
                = globalState this @ [conversations (snd (startConversation host this anomaly))]
            \<and> fired (snd (startConversation host this anomaly)) = fired this"
  using assms
  by (simp add: startConversation_def getConversation_def Let_def saveConversations_def
        Map_get_Map_set)

lemma startConversation_stored:
  "getConversation (snd (startConversation host this anomaly)) (anomaly_id anomaly)
     = Some (fst (startConversation host this anomaly))"
proof (cases "getConversation this (anomaly_id anomaly)")
  case None
  from startConversation_new [OF None] show ?thesis by blast
next
  case (Some c)
  then show ?thesis by (simp add: startConversation_existing)
qed

lemma openingContent_renders:
  "(\<exists>pre post. openingContent anomaly = pre @ title anomaly @ post)
   \<and> (\<exists>pre post. openingContent anomaly = pre @ description anomaly @ post)
   \<and> (\<forall>s. suggestion anomaly = Some s \<longrightarrow> (\<exists>pre post. openingContent anomaly = pre @ s @ post))"
proof -
  have t: "\<exists>pre post. openingContent anomaly = pre @ title anomaly @ post"
    unfolding openingContent_def by (rule exI, rule exI, rule refl)
  have d: "\<exists>pre post. openingContent anomaly = pre @ description anomaly @ post"
    unfolding openingContent_def append_assoc [symmetric]
    by (subst append_assoc, subst append_assoc, subst append_assoc, rule exI, rule exI, rule refl)
  have s: "\<exists>pre post. openingContent anomaly = pre @ s @ post" if "suggestion anomaly = Some s" for s
  proof (cases "s = []")
    case True
    have "openingContent anomaly = [] @ [] @ openingContent anomaly" by simp
    with True show ?thesis by blast
  next
    case False
    have "openingContent anomaly =
       (''I've identified an issue in your code:\<newline>\<newline>**'' @ title anomaly
         @ ''**\<newline>\<newline>'' @ description anomaly @ ''\<newline>\<newline>'' @ ''**Suggestion:** '')
       @ s @ ''\<newline>\<newline>Would you like me to explain this issue in more detail or help you fix it?''"
      using that False by (simp add: openingContent_def)
    then show ?thesis by blast
  qed
  from t d s show ?thesis by blast
qed

text \<open>
  Claim C5. A second \<^verbatim>\<open>startConversation\<close> for the same anomaly returns the conversation
  that the first returned, with the same id and the same messages, and changes nothing in
  the manager. The first returns the conversation of the anomaly's id when there is one,
  changing nothing; when there is none, the conversation it creates has the id
  \<^verbatim>\<open>conv-\<close> followed by the anomaly's id and one message, of the assistant, whose content
  holds the title, the description and, if there is one, the suggestion of the anomaly;
  the conversation is in the map and the map is written to the global state.
\<close>

theorem startConversation_idempotent:
  "let first = startConversation host this anomaly;
       second = startConversation host' (snd first) anomaly
   in fst second = fst first
      \<and> conv_id (fst second) = conv_id (fst first)
      \<and> messages (fst second) = messages (fst first)
      \<and> snd second = snd first
      \<and> getConversation (snd first) (anomaly_id anomaly) = Some (fst first)
      \<and> (getConversation this (anomaly_id anomaly) = Some c \<longrightarrow>
            fst first = c \<and> snd first = this)
      \<and> (getConversation this (anomaly_id anomaly) = None \<longrightarrow>
            conv_id (fst first) = ''conv-'' @ anomaly_id anomaly
            \<and> anomalyId (fst first) = anomaly_id anomaly
            \<and> (\<exists>m. messages (fst first) = [m] \<and> role m = Assistant
                     \<and> content m = openingContent anomaly
                     \<and> (\<exists>pre post. content m = pre @ title anomaly @ post)
                     \<and> (\<exists>pre post. content m = pre @ description anomaly @ post)
                     \<and> (\<forall>s. suggestion anomaly = Some s \<longrightarrow>
                            (\<exists>pre post. content m = pre @ s @ post)))
            \<and> globalState (snd first) = globalState this @ [conversations (snd first)])"
proof -
  have again: "startConversation host' (snd (startConversation host this anomaly)) anomaly
                 = startConversation host this anomaly"
    using startConversation_existing [OF startConversation_stored, of host' host this anomaly]
    by simp
  have existing: "fst (startConversation host this anomaly) = c
                  \<and> snd (startConversation host this anomaly) = this"
    if "getConversation this (anomaly_id anomaly) = Some c"
    using that by (simp add: startConversation_existing)
  have created: "conv_id (fst (startConversation host this anomaly)) = ''conv-'' @ anomaly_id anomaly
            \<and> anomalyId (fst (startConversation host this anomaly)) = anomaly_id anomaly
            \<and> (\<exists>m. messages (fst (startConversation host this anomaly)) = [m] \<and> role m = Assistant
                     \<and> content m = openingContent anomaly
                     \<and> (\<exists>pre post. content m = pre @ title anomaly @ post)
                     \<and> (\<exists>pre post. content m = pre @ description anomaly @ post)
                     \<and> (\<forall>s. suggestion anomaly = Some s \<longrightarrow>
                            (\<exists>pre post. content m = pre @ s @ post)))
            \<and> globalState (snd (startConversation host this anomaly))
                = globalState this @ [conversations (snd (startConversation host this anomaly))]"
    if none: "getConversation this (anomaly_id anomaly) = None"
  proof -
    from startConversation_new [OF none, of host] obtain m where
      m: "fst (startConversation host this anomaly)
               = \<lparr>conv_id = ''conv-'' @ anomaly_id anomaly, anomalyId = anomaly_id anomaly,
                  messages = [m], createdAt = now host (ticks this),
                  updatedAt = now host (ticks this + 1)\<rparr>"
         "role m = Assistant" "content m = openingContent anomaly"
         "globalState (snd (startConversation host this anomaly))
                = globalState this @ [conversations (snd (startConversation host this anomaly))]"
      by blast
    show ?thesis
      using m openingContent_renders [of anomaly] by simp
  qed
  show ?thesis
    unfolding Let_def again
    using startConversation_stored [of host this anomaly] existing created by blast
qed

theorem startConversation_idempotent_witness:
  "fst (startConversation emptyHost
          (snd (startConversation emptyHost freshManager (sampleAnomaly ''a.ts-0-1000'' Sev_error)))
          (sampleAnomaly ''a.ts-0-1000'' Sev_error))
     = fst (startConversation emptyHost freshManager (sampleAnomaly ''a.ts-0-1000'' Sev_error))
   \<and> conv_id (fst (startConversation emptyHost freshManager (sampleAnomaly ''a.ts-0-1000'' Sev_error)))
       = ''conv-a.ts-0-1000''
   \<and> map role (messages (fst (startConversation emptyHost
          (snd (startConversation emptyHost freshManager (sampleAnomaly ''a.ts-0-1000'' Sev_error)))
          (sampleAnomaly ''a.ts-0-1000'' Sev_error))))
       = [Assistant]"
  using startConversation_idempotent
          [of emptyHost freshManager "sampleAnomaly ''a.ts-0-1000'' Sev_error" emptyHost]
  by (auto simp: Let_def getConversation_def Map_get_def freshManager_def sampleAnomaly_def)

text \<open>
  Claim C6. When there is no conversation for the anomaly id, \<^verbatim>\<open>sendMessage\<close> fails with
  the error \<^verbatim>\<open>Conversation not found\<close> and the manager is as before: no conversation is
  created, no message appended, nothing written to the global state, nothing fired.
\<close>

theorem sendMessage_not_found:
  assumes "getConversation this aid = None"
  shows "sendMessage host cfg svc this aid text anomalyContext
           = (Inl (Error ''Conversation not found''), this)"
  using assms by (simp add: sendMessage_def getConversation_def)

theorem sendMessage_not_found_witness:
  "sendMessage emptyHost sampleConfig sampleService freshManager ''a.ts-0-1000'' ''why?''
     sampleAnomalyContext
   = (Inl (Error ''Conversation not found''), freshManager)"
  using sendMessage_not_found
          [of freshManager "''a.ts-0-1000''" emptyHost sampleConfig sampleService "''why?''"
              sampleAnomalyContext]
  by (simp add: getConversation_def Map_get_def freshManager_def)

text \<open>
  Claim C10. For a conversation that exists, \<^verbatim>\<open>sendMessage\<close> fails with an error
  exactly when \<^verbatim>\<open>chat\<close> fails with it on the history with the user's message appended.
  Then the conversation in the map has the user's message appended and its
  \<^verbatim>\<open>updatedAt\<close> set to the reading of the clock taken after the append, which is not
  before the old one when the clock does not run backwards; the other conversations are
  as before, nothing is written to the global state and nothing is fired.
\<close>

theorem sendMessage_chat_failure:
  assumes "getConversation this aid = Some conversation"
  shows "let n = ticks this;
             userMessage = \<lparr>msg_id = ''msg-'' @ string_of_nat (now host n), role = User,
                            content = text, timestamp = now host (n + 1)\<rparr>;
             history = filter (\<lambda>m. role m \<noteq> System) (messages conversation @ [userMessage]);
             outcome = sendMessage host cfg svc this aid text anomalyContext;
             this' = snd outcome
         in (fst (chat host cfg svc this history anomalyContext) = Inl e \<longleftrightarrow> fst outcome = Inl e)
          \<and> (fst outcome = Inl e \<longrightarrow>
                getConversation this' aid
                  = Some (conversation\<lparr>messages := messages conversation @ [userMessage],
                                        updatedAt := now host (n + 2)\<rparr>)
                \<and> (\<forall>k. k \<noteq> aid \<longrightarrow> getConversation this' k = getConversation this k)
                \<and> (mono (now host) \<and> updatedAt conversation \<le> now host n \<longrightarrow>
                      updatedAt conversation \<le> now host (n + 2))
                \<and> globalState this' = globalState this
                \<and> fired this' = fired this
                \<and> ticks this' = n + 3)"
proof -
  have later: "updatedAt conversation \<le> now host (ticks this + 2)"
    if "mono (now host)" "updatedAt conversation \<le> now host (ticks this)"
  proof -
    have "now host (ticks this) \<le> now host (ticks this + 2)"
      using that(1) by (simp add: monoD)
    with that(2) show ?thesis by simp
  qed
  show ?thesis
    using assms later
    by (auto simp: sendMessage_def getConversation_def Let_def Map_get_Map_set
          saveConversations_def chat_def split: sum.splits promise.splits option.splits
          if_splits)
qed

lemma chat_emptyHost:
  "chat emptyHost sampleConfig sampleService rt msgs anomalyContext
     = (Inl (Error ''Connection error.''),
        console_error ''OpenAI chat error:'' (Error ''Connection error.'') rt)"
  by (simp add: chat_def sampleService_client emptyHost_def)

lemma started_roles:
  "map role (messages (fst (startConversation emptyHost freshManager
                              (sampleAnomaly ''a.ts-0-1000'' Sev_error)))) = [Assistant]
   \<and> updatedAt (fst (startConversation emptyHost freshManager
                        (sampleAnomaly ''a.ts-0-1000'' Sev_error))) = 1001
   \<and> ticks (snd (startConversation emptyHost freshManager
                    (sampleAnomaly ''a.ts-0-1000'' Sev_error))) = 4
   \<and> fired (snd (startConversation emptyHost freshManager
                    (sampleAnomaly ''a.ts-0-1000'' Sev_error))) = []"
  by (simp add: startConversation_def Map_get_def freshManager_def sampleAnomaly_def Let_def
        saveConversations_def emptyHost_def)

lemma started_stored:
  "getConversation (snd (startConversation emptyHost freshManager
                           (sampleAnomaly ''a.ts-0-1000'' Sev_error))) ''a.ts-0-1000''
     = Some (fst (startConversation emptyHost freshManager (sampleAnomaly ''a.ts-0-1000'' Sev_error)))"
  using startConversation_stored [of emptyHost freshManager "sampleAnomaly ''a.ts-0-1000'' Sev_error"]
  by (simp add: sampleAnomaly_def)

theorem sendMessage_chat_failure_witness:
  "fst (sendMessage emptyHost sampleConfig sampleService
          (snd (startConversation emptyHost freshManager (sampleAnomaly ''a.ts-0-1000'' Sev_error)))
          ''a.ts-0-1000'' ''why?'' sampleAnomalyContext)
     = Inl (Error ''Connection error.'')
   \<and> map_option (\<lambda>c. (map role (messages c), updatedAt c))
         (getConversation
            (snd (sendMessage emptyHost sampleConfig sampleService
                    (snd (startConversation emptyHost freshManager
                            (sampleAnomaly ''a.ts-0-1000'' Sev_error)))
                    ''a.ts-0-1000'' ''why?'' sampleAnomalyContext))
            ''a.ts-0-1000'')
       = Some ([Assistant, User], 1006)
   \<and> globalState
         (snd (sendMessage emptyHost sampleConfig sampleService
                 (snd (startConversation emptyHost freshManager
                         (sampleAnomaly ''a.ts-0-1000'' Sev_error)))
                 ''a.ts-0-1000'' ''why?'' sampleAnomalyContext))
       = globalState (snd (startConversation emptyHost freshManager
                             (sampleAnomaly ''a.ts-0-1000'' Sev_error)))
   \<and> fired
         (snd (sendMessage emptyHost sampleConfig sampleService
                 (snd (startConversation emptyHost freshManager
                         (sampleAnomaly ''a.ts-0-1000'' Sev_error)))
                 ''a.ts-0-1000'' ''why?'' sampleAnomalyContext))
       = []"
proof -
  have clock: "now emptyHost k = 1000 + k" for k
    by (simp add: emptyHost_def)
  show ?thesis
    using sendMessage_chat_failure
            [OF started_stored, of emptyHost "''why?''" sampleConfig sampleService
                sampleAnomalyContext "Error ''Connection error.''"]
          started_roles
    by (simp add: Let_def chat_emptyHost clock)
qed

end
